theory Spec2Isabelle
  imports Complex_Main "HOL-Library.Option_ord"
begin

section \<open>JavaScript numbers\<close>

text \<open>
  The counts the server computes with are JavaScript numbers. Finite values are kept as
  exact rationals; the three non-finite values a division can produce are kept apart, so
  that a division by zero is a value of the model and not an unspecified quotient.
\<close>

datatype jsnum = Finite rat | PosInf | NegInf | NaN

definition js_div :: "rat \<Rightarrow> rat \<Rightarrow> jsnum" where
  "js_div x y =
     (if y = 0 then (if 0 < x then PosInf else if x < 0 then NegInf else NaN)
      else Finite (x / y))"

fun js_times :: "jsnum \<Rightarrow> rat \<Rightarrow> jsnum" where
  "js_times (Finite x) k = Finite (x * k)"
| "js_times PosInf k = (if 0 < k then PosInf else if k < 0 then NegInf else NaN)"
| "js_times NegInf k = (if 0 < k then NegInf else if k < 0 then PosInf else NaN)"
| "js_times NaN k = NaN"

text \<open>\<open>Math.round\<close>: nearest integer, halves towards plus infinity; non-finite values pass.\<close>

fun Math_round :: "jsnum \<Rightarrow> jsnum" where
  "Math_round (Finite x) = Finite (of_int \<lfloor>x + 1 / 2\<rfloor>)"
| "Math_round v = v"


section \<open>Daily statistics\<close>

text \<open>One row of the daily statistics query: the day and the number of detections on it.\<close>

record daily_stat =
  stat_date :: "int option"
  stat_count :: nat

section \<open>The table \<open>deepfake_media\<close> and its predicates\<close>

text \<open>
  A row of \<open>deepfake_media\<close>, with the columns the queries filter, order or search on.
  Every column but \<open>id\<close> and \<open>media_type\<close> is nullable in the schema. Timestamps are
  milliseconds since the epoch.
\<close>

record media_row =
  row_id :: int
  media_type :: string
  title :: "string option"
  description :: "string option"
  confidence_score :: "rat option"
  source_platform :: "string option"
  detected_date :: "int option"
  is_verified :: "bool option"
  tags :: "string option"

text \<open>
  SQL truth values: \<open>None\<close> is UNKNOWN, the value of a comparison with NULL. A \<open>WHERE\<close>
  clause keeps the rows whose condition is \<open>Some True\<close>.
\<close>

fun sql_and :: "bool option \<Rightarrow> bool option \<Rightarrow> bool option" where
  "sql_and (Some False) b = Some False"
| "sql_and a (Some False) = Some False"
| "sql_and (Some True) (Some True) = Some True"
| "sql_and a b = None"

fun sql_or :: "bool option \<Rightarrow> bool option \<Rightarrow> bool option" where
  "sql_or (Some True) b = Some True"
| "sql_or a (Some True) = Some True"
| "sql_or (Some False) (Some False) = Some False"
| "sql_or a b = None"

text \<open>
  \<open>LIKE\<close> with the wildcards \<open>%\<close> (any run of characters) and \<open>_\<close> (one character),
  compared character by character.
\<close>

fun sql_like :: "string \<Rightarrow> string \<Rightarrow> bool" where
  "sql_like [] s = (s = [])"
| "sql_like (p # ps) [] = (p = CHR ''%'' \<and> sql_like ps [])"
| "sql_like (p # ps) (c # cs) =
     (if p = CHR ''%'' then sql_like ps (c # cs) \<or> sql_like (p # ps) cs
      else (p = CHR ''_'' \<or> p = c) \<and> sql_like ps cs)"

definition like_column :: "string option \<Rightarrow> string \<Rightarrow> bool option" where
  "like_column col pat = map_option (sql_like pat) col"

definition ms_per_hour :: int where
  "ms_per_hour = 3600000"

definition ms_per_day :: int where
  "ms_per_day = 24 * ms_per_hour"

text \<open>\<open>DATE(detected_date)\<close>: the calendar day of a timestamp.\<close>

definition DATE :: "int \<Rightarrow> int" where
  "DATE t = t div ms_per_day"

text \<open>
  One conjunct of a \<open>WHERE\<close> clause, kept together with the parameters the handler pushes
  for its placeholders. Strings are compared exactly, as under a binary collation.
\<close>

datatype cond =
    TrueCond
  | DetectedBetween int int
  | ConfidenceGe rat
  | MediaTypeEq string
  | PlatformEq string
  | VerifiedEq bool
  | DetectedAfter int
  | DetectedAfterNowMinus24h
  | PlatformIn "string list"
  | VerifiedIs1
  | KeywordLike string string string
  | DetectedSinceNowMinus7d

fun eval_cond :: "int \<Rightarrow> cond \<Rightarrow> media_row \<Rightarrow> bool option" where
  "eval_cond now TrueCond r = Some True"
| "eval_cond now (DetectedBetween s e) r = map_option (\<lambda>d. s \<le> d \<and> d \<le> e) (detected_date r)"
| "eval_cond now (ConfidenceGe m) r = map_option (\<lambda>c. m \<le> c) (confidence_score r)"
| "eval_cond now (MediaTypeEq t) r = Some (media_type r = t)"
| "eval_cond now (PlatformEq p) r = map_option (\<lambda>sp. sp = p) (source_platform r)"
| "eval_cond now (VerifiedEq v) r = map_option (\<lambda>b. b = v) (is_verified r)"
| "eval_cond now (DetectedAfter t) r = map_option (\<lambda>d. t < d) (detected_date r)"
| "eval_cond now DetectedAfterNowMinus24h r =
     map_option (\<lambda>d. now - 24 * ms_per_hour < d) (detected_date r)"
| "eval_cond now (PlatformIn ps) r = map_option (\<lambda>sp. sp \<in> set ps) (source_platform r)"
| "eval_cond now VerifiedIs1 r = map_option (\<lambda>b. b = True) (is_verified r)"
| "eval_cond now (KeywordLike p1 p2 p3) r =
     sql_or (sql_or (like_column (title r) p1) (like_column (description r) p2))
            (like_column (tags r) p3)"
| "eval_cond now DetectedSinceNowMinus7d r =
     map_option (\<lambda>d. now - 7 * ms_per_day \<le> d) (detected_date r)"

fun eval_where :: "int \<Rightarrow> cond list \<Rightarrow> media_row \<Rightarrow> bool option" where
  "eval_where now [] r = Some True"
| "eval_where now (c # cs) r = sql_and (eval_cond now c r) (eval_where now cs r)"

definition where_rows :: "int \<Rightarrow> cond list \<Rightarrow> media_row list \<Rightarrow> media_row list" where
  "where_rows now conds tbl = filter (\<lambda>r. eval_where now conds r = Some True) tbl"

subsection \<open>ORDER BY\<close>

text \<open>
  Rows are ordered by insertion into a sorted list; \<open>precedes a b\<close> says that \<open>a\<close> may stand
  in front of \<open>b\<close>. Rows with equal keys keep the order in which the table holds them.
  In a descending order NULL comes last, which is the order of \<open>option\<close>.
\<close>

fun insert_by :: "('a \<Rightarrow> 'a \<Rightarrow> bool) \<Rightarrow> 'a \<Rightarrow> 'a list \<Rightarrow> 'a list" where
  "insert_by precedes x [] = [x]"
| "insert_by precedes x (y # ys) =
     (if precedes x y then x # y # ys else y # insert_by precedes x ys)"

definition order_by :: "('a \<Rightarrow> 'a \<Rightarrow> bool) \<Rightarrow> 'a list \<Rightarrow> 'a list" where
  "order_by precedes xs = foldr (insert_by precedes) xs []"

text \<open>\<open>ORDER BY detected_date DESC, confidence_score DESC\<close>\<close>

definition date_desc_conf_desc :: "media_row \<Rightarrow> media_row \<Rightarrow> bool" where
  "date_desc_conf_desc a b \<longleftrightarrow>
     detected_date a > detected_date b \<or>
     (detected_date a = detected_date b \<and> confidence_score a \<ge> confidence_score b)"

text \<open>\<open>ORDER BY confidence_score DESC, detected_date DESC\<close>\<close>

definition conf_desc_date_desc :: "media_row \<Rightarrow> media_row \<Rightarrow> bool" where
  "conf_desc_date_desc a b \<longleftrightarrow>
     confidence_score a > confidence_score b \<or>
     (confidence_score a = confidence_score b \<and> detected_date a \<ge> detected_date b)"

subsection \<open>Statements and the connection pool\<close>

datatype projection = Columns | CountAll | RankedColumns | DailyCounts

datatype ordering = DateDescConfDesc | ConfDescDateDesc | DayDesc

text \<open>A statement as handed to \<open>pool.execute\<close>.\<close>

record sql_select =
  sel :: projection
  where_conds :: "cond list"
  ordered :: "ordering option"
  limit_param :: "int option"
  offset_param :: "int option"

text \<open>
  The backend is the table when the database answers, and \<open>None\<close> when \<open>pool.execute\<close>
  rejects; \<open>now\<close> is the database's \<open>NOW()\<close>.
\<close>

type_synonym backend = "media_row list option"

fun row_order :: "ordering option \<Rightarrow> media_row list \<Rightarrow> media_row list" where
  "row_order (Some DateDescConfDesc) rows = order_by date_desc_conf_desc rows"
| "row_order (Some ConfDescDateDesc) rows = order_by conf_desc_date_desc rows"
| "row_order other rows = rows"

definition page_of :: "int option \<Rightarrow> int option \<Rightarrow> 'a list \<Rightarrow> 'a list" where
  "page_of l ofs rows =
     (let skipped = (case ofs of None \<Rightarrow> rows | Some k \<Rightarrow> drop (nat k) rows)
      in case l of None \<Rightarrow> skipped | Some n \<Rightarrow> take (nat n) skipped)"

definition execute_rows :: "backend \<Rightarrow> int \<Rightarrow> sql_select \<Rightarrow> media_row list option" where
  "execute_rows be now q =
     map_option (\<lambda>tbl.
        page_of (limit_param q) (offset_param q)
          (row_order (ordered q) (where_rows now (where_conds q) tbl))) be"

definition execute_count :: "backend \<Rightarrow> int \<Rightarrow> sql_select \<Rightarrow> nat option" where
  "execute_count be now q = map_option (\<lambda>tbl. length (where_rows now (where_conds q) tbl)) be"

text \<open>
  \<open>ROW_NUMBER() OVER (ORDER BY confidence_score DESC, detected_date DESC)\<close>: the window
  numbers the selected rows in its own order; the statement's \<open>ORDER BY\<close> and \<open>LIMIT\<close>
  then apply to the numbered rows.
\<close>

definition row_number :: "media_row list \<Rightarrow> (nat \<times> media_row) list" where
  "row_number rows = zip [1 ..< Suc (length rows)] (order_by conf_desc_date_desc rows)"

definition execute_ranked ::
  "backend \<Rightarrow> int \<Rightarrow> sql_select \<Rightarrow> (nat \<times> media_row) list option" where
  "execute_ranked be now q =
     map_option (\<lambda>tbl.
        page_of (limit_param q) (offset_param q)
          (order_by (\<lambda>a b. conf_desc_date_desc (snd a) (snd b))
             (row_number (where_rows now (where_conds q) tbl)))) be"

text \<open>
  \<open>SELECT DATE(detected_date) as date, COUNT(*) as count ... GROUP BY DATE(detected_date)
  ORDER BY date DESC\<close>: one row for each day that has a selected detection.
\<close>

definition day_of :: "media_row \<Rightarrow> int option" where
  "day_of r = map_option DATE (detected_date r)"

definition group_by_day :: "media_row list \<Rightarrow> daily_stat list" where
  "group_by_day rows =
     map (\<lambda>d. \<lparr> stat_date = d, stat_count = length (filter (\<lambda>r. day_of r = d) rows) \<rparr>)
         (remdups (map day_of rows))"

definition execute_daily :: "backend \<Rightarrow> int \<Rightarrow> sql_select \<Rightarrow> daily_stat list option" where
  "execute_daily be now q =
     map_option (\<lambda>tbl.
        order_by (\<lambda>a b. stat_date a \<ge> stat_date b)
          (group_by_day (where_rows now (where_conds q) tbl))) be"

section \<open>Request validation\<close>

text \<open>
  The schemas are written in the rules of a validation library: the keys of a schema are
  checked in its order, the first failure is the error of the request, and a key outside
  the schema is refused. A query-string parameter is kept as the validator sees it: its
  text, and what the library's conversions make of that text (an ISO 8601 date, a number,
  a boolean), each \<open>None\<close> when the text does not convert.
\<close>

record qvalue =
  q_text :: string
  q_date :: "int option"
  q_number :: "rat option"
  q_bool :: "bool option"

type_synonym req_query = "(string \<times> qvalue) list"

datatype joi_error =
    AnyRequired string
  | AnyOnly string
  | DateFormat string
  | DateMin string
  | DateRef string
  | StringEmpty string
  | NumberBase string
  | NumberInteger string
  | NumberMin string
  | NumberMax string
  | BooleanBase string
  | ObjectUnknown string

definition and_then :: "'e + 'a \<Rightarrow> ('a \<Rightarrow> 'e + 'b) \<Rightarrow> 'e + 'b" where
  "and_then r f = (case r of Inl e \<Rightarrow> Inl e | Inr a \<Rightarrow> f a)"

text \<open>\<open>Joi.date().iso().required()\<close>\<close>

definition date_iso_required :: "string \<Rightarrow> req_query \<Rightarrow> joi_error + int" where
  "date_iso_required k q =
     (case map_of q k of
        None \<Rightarrow> Inl (AnyRequired k)
      | Some v \<Rightarrow> (case q_date v of None \<Rightarrow> Inl (DateFormat k) | Some d \<Rightarrow> Inr d))"

text \<open>\<open>Joi.date().iso().min(Joi.ref(...)).required()\<close>, with the referenced date resolved.\<close>

definition date_iso_min_required :: "string \<Rightarrow> int \<Rightarrow> req_query \<Rightarrow> joi_error + int" where
  "date_iso_min_required k ref q =
     (case map_of q k of
        None \<Rightarrow> Inl (AnyRequired k)
      | Some v \<Rightarrow>
          (case q_date v of
             None \<Rightarrow> Inl (DateFormat k)
           | Some d \<Rightarrow> if d < ref then Inl (DateMin k) else Inr d))"

text \<open>\<open>Joi.date().iso().optional()\<close>\<close>

definition date_iso_optional :: "string \<Rightarrow> req_query \<Rightarrow> joi_error + int option" where
  "date_iso_optional k q =
     (case map_of q k of
        None \<Rightarrow> Inr None
      | Some v \<Rightarrow> (case q_date v of None \<Rightarrow> Inl (DateFormat k) | Some d \<Rightarrow> Inr (Some d)))"

text \<open>
  \<open>Joi.date().iso().min(Joi.ref(...)).optional()\<close>: a given date is compared with the
  referenced one, and is refused when the reference is absent.
\<close>

definition date_iso_min_optional ::
  "string \<Rightarrow> int option \<Rightarrow> req_query \<Rightarrow> joi_error + int option" where
  "date_iso_min_optional k ref q =
     (case map_of q k of
        None \<Rightarrow> Inr None
      | Some v \<Rightarrow>
          (case q_date v of
             None \<Rightarrow> Inl (DateFormat k)
           | Some d \<Rightarrow>
               (case ref of
                  None \<Rightarrow> Inl (DateRef k)
                | Some s \<Rightarrow> if d < s then Inl (DateMin k) else Inr (Some d))))"

text \<open>\<open>Joi.string().valid(...).default(...)\<close>\<close>

definition string_valid_default ::
  "string \<Rightarrow> string list \<Rightarrow> string \<Rightarrow> req_query \<Rightarrow> joi_error + string" where
  "string_valid_default k allowed dflt q =
     (case map_of q k of
        None \<Rightarrow> Inr dflt
      | Some v \<Rightarrow> if q_text v \<in> set allowed then Inr (q_text v) else Inl (AnyOnly k))"

text \<open>\<open>Joi.number().integer().min(lo).max(hi).default(dflt)\<close>; \<open>hi\<close> is \<open>None\<close> without \<open>max\<close>.\<close>

definition integer_range_default ::
  "string \<Rightarrow> int \<Rightarrow> int option \<Rightarrow> int \<Rightarrow> req_query \<Rightarrow> joi_error + int" where
  "integer_range_default k lo hi dflt q =
     (case map_of q k of
        None \<Rightarrow> Inr dflt
      | Some v \<Rightarrow>
          (case q_number v of
             None \<Rightarrow> Inl (NumberBase k)
           | Some n \<Rightarrow>
               if of_int \<lfloor>n\<rfloor> \<noteq> n then Inl (NumberInteger k)
               else if n < of_int lo then Inl (NumberMin k)
               else if (case hi of None \<Rightarrow> False | Some h \<Rightarrow> of_int h < n) then Inl (NumberMax k)
               else Inr \<lfloor>n\<rfloor>))"

text \<open>\<open>Joi.number().min(lo).max(hi).default(dflt)\<close>\<close>

definition number_range_default ::
  "string \<Rightarrow> rat \<Rightarrow> rat \<Rightarrow> rat \<Rightarrow> req_query \<Rightarrow> joi_error + rat" where
  "number_range_default k lo hi dflt q =
     (case map_of q k of
        None \<Rightarrow> Inr dflt
      | Some v \<Rightarrow>
          (case q_number v of
             None \<Rightarrow> Inl (NumberBase k)
           | Some n \<Rightarrow>
               if n < lo then Inl (NumberMin k)
               else if hi < n then Inl (NumberMax k)
               else Inr n))"

text \<open>\<open>Joi.string().optional()\<close>: an empty string is refused.\<close>

definition string_optional :: "string \<Rightarrow> req_query \<Rightarrow> joi_error + string option" where
  "string_optional k q =
     (case map_of q k of
        None \<Rightarrow> Inr None
      | Some v \<Rightarrow> if q_text v = [] then Inl (StringEmpty k) else Inr (Some (q_text v)))"

text \<open>\<open>Joi.string().min(1).required()\<close>\<close>

definition string_min1_required :: "string \<Rightarrow> req_query \<Rightarrow> joi_error + string" where
  "string_min1_required k q =
     (case map_of q k of
        None \<Rightarrow> Inl (AnyRequired k)
      | Some v \<Rightarrow> if q_text v = [] then Inl (StringEmpty k) else Inr (q_text v))"

text \<open>\<open>Joi.boolean().optional()\<close>\<close>

definition boolean_optional :: "string \<Rightarrow> req_query \<Rightarrow> joi_error + bool option" where
  "boolean_optional k q =
     (case map_of q k of
        None \<Rightarrow> Inr None
      | Some v \<Rightarrow> (case q_bool v of None \<Rightarrow> Inl (BooleanBase k) | Some b \<Rightarrow> Inr (Some b)))"

text \<open>A key outside the schema is refused, after the keys of the schema were checked.\<close>

definition no_unknown_keys :: "string list \<Rightarrow> req_query \<Rightarrow> joi_error + unit" where
  "no_unknown_keys ks q =
     (case filter (\<lambda>k. k \<notin> set ks) (map fst q) of
        [] \<Rightarrow> Inr ()
      | k # _ \<Rightarrow> Inl (ObjectUnknown k))"

subsection \<open>The schemas\<close>

type_synonym list_params =
  "int \<times> int \<times> string \<times> int \<times> int \<times> rat \<times> string option \<times> bool option"

definition dateRangeSchema :: "req_query \<Rightarrow> joi_error + list_params" where
  "dateRangeSchema q =
     and_then (date_iso_required ''startDate'' q) (\<lambda>startDate.
     and_then (date_iso_min_required ''endDate'' startDate q) (\<lambda>endDate.
     and_then (string_valid_default ''mediaType'' [''photo'', ''video'', ''all''] ''all'' q) (\<lambda>mediaType.
     and_then (integer_range_default ''limit'' 1 (Some 1000) 100 q) (\<lambda>limit.
     and_then (integer_range_default ''offset'' 0 None 0 q) (\<lambda>offset.
     and_then (number_range_default ''minConfidence'' 0 1 0 q) (\<lambda>minConfidence.
     and_then (string_optional ''platform'' q) (\<lambda>platform.
     and_then (boolean_optional ''verified'' q) (\<lambda>verified.
     and_then (no_unknown_keys [''startDate'', ''endDate'', ''mediaType'', ''limit'', ''offset'',
                                ''minConfidence'', ''platform'', ''verified''] q) (\<lambda>_.
     Inr (startDate, endDate, mediaType, limit, offset, minConfidence, platform, verified))))))))))"

text \<open>The schema of \<open>/api/stats\<close>, \<open>/api/platforms\<close>: the two dates.\<close>

definition periodSchema :: "req_query \<Rightarrow> joi_error + int \<times> int" where
  "periodSchema q =
     and_then (date_iso_required ''startDate'' q) (\<lambda>startDate.
     and_then (date_iso_min_required ''endDate'' startDate q) (\<lambda>endDate.
     and_then (no_unknown_keys [''startDate'', ''endDate''] q) (\<lambda>_.
     Inr (startDate, endDate))))"

definition rankingsSchema :: "req_query \<Rightarrow> joi_error + int \<times> int \<times> string \<times> int" where
  "rankingsSchema q =
     and_then (date_iso_required ''startDate'' q) (\<lambda>startDate.
     and_then (date_iso_min_required ''endDate'' startDate q) (\<lambda>endDate.
     and_then (string_valid_default ''mediaType'' [''photo'', ''video'', ''all''] ''all'' q) (\<lambda>mediaType.
     and_then (integer_range_default ''limit'' 1 (Some 50) 10 q) (\<lambda>limit.
     and_then (no_unknown_keys [''startDate'', ''endDate'', ''mediaType'', ''limit''] q) (\<lambda>_.
     Inr (startDate, endDate, mediaType, limit))))))"

definition exportDeepfakesSchema ::
  "req_query \<Rightarrow> joi_error + int \<times> int \<times> string \<times> string \<times> rat" where
  "exportDeepfakesSchema q =
     and_then (date_iso_required ''startDate'' q) (\<lambda>startDate.
     and_then (date_iso_min_required ''endDate'' startDate q) (\<lambda>endDate.
     and_then (string_valid_default ''format'' [''csv'', ''json''] ''csv'' q) (\<lambda>format.
     and_then (string_valid_default ''mediaType'' [''photo'', ''video'', ''all''] ''all'' q) (\<lambda>mediaType.
     and_then (number_range_default ''minConfidence'' 0 1 0 q) (\<lambda>minConfidence.
     and_then (no_unknown_keys [''startDate'', ''endDate'', ''format'', ''mediaType'',
                                ''minConfidence''] q) (\<lambda>_.
     Inr (startDate, endDate, format, mediaType, minConfidence)))))))"

text \<open>The schema of \<open>/api/export/stats\<close> and \<open>/api/export/platforms\<close>.\<close>

definition exportPeriodSchema :: "req_query \<Rightarrow> joi_error + int \<times> int \<times> string" where
  "exportPeriodSchema q =
     and_then (date_iso_required ''startDate'' q) (\<lambda>startDate.
     and_then (date_iso_min_required ''endDate'' startDate q) (\<lambda>endDate.
     and_then (string_valid_default ''format'' [''csv'', ''json''] ''csv'' q) (\<lambda>format.
     and_then (no_unknown_keys [''startDate'', ''endDate'', ''format''] q) (\<lambda>_.
     Inr (startDate, endDate, format)))))"

type_synonym search_params =
  "string \<times> int option \<times> int option \<times> string \<times> rat \<times> string option \<times> bool option \<times> int"

definition searchSchema :: "req_query \<Rightarrow> joi_error + search_params" where
  "searchSchema q =
     and_then (string_min1_required ''query'' q) (\<lambda>searchQuery.
     and_then (date_iso_optional ''startDate'' q) (\<lambda>startDate.
     and_then (date_iso_min_optional ''endDate'' startDate q) (\<lambda>endDate.
     and_then (string_valid_default ''mediaType'' [''photo'', ''video'', ''all''] ''all'' q) (\<lambda>mediaType.
     and_then (number_range_default ''minConfidence'' 0 1 0 q) (\<lambda>minConfidence.
     and_then (string_optional ''platform'' q) (\<lambda>platform.
     and_then (boolean_optional ''verified'' q) (\<lambda>verified.
     and_then (integer_range_default ''limit'' 1 (Some 100) 50 q) (\<lambda>limit.
     and_then (no_unknown_keys [''query'', ''startDate'', ''endDate'', ''mediaType'',
                                ''minConfidence'', ''platform'', ''verified'', ''limit''] q) (\<lambda>_.
     Inr (searchQuery, startDate, endDate, mediaType, minConfidence, platform, verified,
          limit))))))))))"

type_synonym alert_params = "rat \<times> int option \<times> string option \<times> bool option"

definition alertsSchema :: "req_query \<Rightarrow> joi_error + alert_params" where
  "alertsSchema q =
     and_then (number_range_default ''minConfidence'' 0 1 (9 / 10) q) (\<lambda>minConfidence.
     and_then (date_iso_optional ''lastCheckTime'' q) (\<lambda>lastCheckTime.
     and_then (string_optional ''platforms'' q) (\<lambda>platforms.
     and_then (boolean_optional ''verifiedOnly'' q) (\<lambda>verifiedOnly.
     and_then (no_unknown_keys [''minConfidence'', ''lastCheckTime'', ''platforms'',
                                ''verifiedOnly''] q) (\<lambda>_.
     Inr (minConfidence, lastCheckTime, platforms, verifiedOnly))))))"

section \<open>Request handlers\<close>

text \<open>
  A handler answers with a status and a body, and hands statements to the pool on the
  way; the statements are returned in the order in which they were executed.
\<close>

datatype 'a response = Status200 'a | Status400 joi_error | Status500

type_synonym 'a handled = "'a response \<times> sql_select list"

text \<open>
  The opening of every handler: \<open>const { error, value } = schema.validate(req.query);
  if (error) return res.status(400)...\<close>
\<close>

definition validate_then ::
  "(req_query \<Rightarrow> joi_error + 'v) \<Rightarrow> ('v \<Rightarrow> 'a handled) \<Rightarrow> req_query \<Rightarrow> 'a handled" where
  "validate_then schema body q =
     (case schema q of Inl e \<Rightarrow> (Status400 e, []) | Inr v \<Rightarrow> body v)"

subsection \<open>\<open>GET /api/deepfakes\<close>\<close>

record deepfakes_page =
  page_data :: "media_row list"
  pagination_total :: nat
  pagination_limit :: int
  pagination_offset :: int
  pagination_hasMore :: bool

text \<open>\<open>query\<close> and \<open>queryParams\<close> as the handler assembles them.\<close>

definition deepfakes_query ::
  "int \<Rightarrow> int \<Rightarrow> string \<Rightarrow> int \<Rightarrow> int \<Rightarrow> rat \<Rightarrow> string option \<Rightarrow> bool option \<Rightarrow> sql_select" where
  "deepfakes_query startDate endDate mediaType limit offset minConfidence platform verified =
     \<lparr> sel = Columns,
       where_conds =
         [DetectedBetween startDate endDate, ConfidenceGe minConfidence]
         @ (if mediaType \<noteq> ''all'' then [MediaTypeEq mediaType] else [])
         @ (case platform of None \<Rightarrow> [] | Some p \<Rightarrow> if p \<noteq> [] then [PlatformEq p] else [])
         @ (case verified of None \<Rightarrow> [] | Some v \<Rightarrow> [VerifiedEq v]),
       ordered = Some DateDescConfDesc,
       limit_param = Some limit,
       offset_param = Some offset \<rparr>"

text \<open>\<open>countQuery\<close> and \<open>countParams\<close>, assembled a second time by the handler.\<close>

definition deepfakes_countQuery ::
  "int \<Rightarrow> int \<Rightarrow> string \<Rightarrow> rat \<Rightarrow> string option \<Rightarrow> bool option \<Rightarrow> sql_select" where
  "deepfakes_countQuery startDate endDate mediaType minConfidence platform verified =
     \<lparr> sel = CountAll,
       where_conds =
         [DetectedBetween startDate endDate, ConfidenceGe minConfidence]
         @ (if mediaType \<noteq> ''all'' then [MediaTypeEq mediaType] else [])
         @ (case platform of None \<Rightarrow> [] | Some p \<Rightarrow> if p \<noteq> [] then [PlatformEq p] else [])
         @ (case verified of None \<Rightarrow> [] | Some v \<Rightarrow> [VerifiedEq v]),
       ordered = None,
       limit_param = None,
       offset_param = None \<rparr>"

definition deepfakes_body :: "backend \<Rightarrow> int \<Rightarrow> list_params \<Rightarrow> deepfakes_page handled" where
  "deepfakes_body be now v =
     (case v of (startDate, endDate, mediaType, limit, offset, minConfidence, platform, verified) \<Rightarrow>
        (let query = deepfakes_query startDate endDate mediaType limit offset minConfidence
                       platform verified
         in case execute_rows be now query of
              None \<Rightarrow> (Status500, [query])
            | Some rows \<Rightarrow>
                (let countQuery = deepfakes_countQuery startDate endDate mediaType minConfidence
                                    platform verified
                 in case execute_count be now countQuery of
                      None \<Rightarrow> (Status500, [query, countQuery])
                    | Some total' \<Rightarrow>
                        (Status200 \<lparr> page_data = rows,
                                     pagination_total = total',
                                     pagination_limit = limit,
                                     pagination_offset = offset,
                                     pagination_hasMore = (offset + limit < int total') \<rparr>,
                         [query, countQuery]))))"

definition api_deepfakes :: "backend \<Rightarrow> int \<Rightarrow> req_query \<Rightarrow> deepfakes_page handled" where
  "api_deepfakes be now = validate_then dateRangeSchema (deepfakes_body be now)"

subsection \<open>\<open>DatabaseService.getDeepfakeMedia\<close>\<close>

text \<open>
  The \<open>filters\<close> object: a field is \<open>None\<close> when the caller left it out, and the
  destructuring then gives it its default.
\<close>

type_synonym filters =
  "int option \<times> int option \<times> string option \<times> int option \<times> int option \<times> rat option
     \<times> string option \<times> bool option"

definition getDeepfakeMedia_query :: "filters \<Rightarrow> sql_select" where
  "getDeepfakeMedia_query fs =
     (case fs of (startDate, endDate, mediaType0, limit0, offset0, minConfidence0, platform, verified) \<Rightarrow>
        (let mediaType = (case mediaType0 of None \<Rightarrow> ''all'' | Some m \<Rightarrow> m);
             limit = (case limit0 of None \<Rightarrow> 100 | Some l \<Rightarrow> l);
             offset = (case offset0 of None \<Rightarrow> 0 | Some k \<Rightarrow> k);
             minConfidence = (case minConfidence0 of None \<Rightarrow> 0 | Some m \<Rightarrow> m)
         in \<lparr> sel = Columns,
              where_conds =
                [TrueCond]
                @ (case (startDate, endDate) of
                     (Some s, Some e) \<Rightarrow> [DetectedBetween s e]
                   | _ \<Rightarrow> [])
                @ (if minConfidence > 0 then [ConfidenceGe minConfidence] else [])
                @ (if mediaType \<noteq> ''all'' then [MediaTypeEq mediaType] else [])
                @ (case platform of None \<Rightarrow> [] | Some p \<Rightarrow> if p \<noteq> [] then [PlatformEq p] else [])
                @ (case verified of None \<Rightarrow> [] | Some v \<Rightarrow> [VerifiedEq v]),
              ordered = Some DateDescConfDesc,
              limit_param = Some limit,
              offset_param = Some offset \<rparr>))"

definition getDeepfakeMedia :: "backend \<Rightarrow> int \<Rightarrow> filters \<Rightarrow> media_row list option" where
  "getDeepfakeMedia be now fs = execute_rows be now (getDeepfakeMedia_query fs)"

subsection \<open>\<open>GET /api/rankings\<close>\<close>

record rankings_body =
  rankings :: "(nat \<times> media_row) list"
  period :: "int \<times> int"
  rankings_mediaType :: string

definition rankings_query :: "int \<Rightarrow> int \<Rightarrow> string \<Rightarrow> int \<Rightarrow> sql_select" where
  "rankings_query startDate endDate mediaType limit =
     \<lparr> sel = RankedColumns,
       where_conds =
         [DetectedBetween startDate endDate]
         @ (if mediaType \<noteq> ''all'' then [MediaTypeEq mediaType] else []),
       ordered = Some ConfDescDateDesc,
       limit_param = Some limit,
       offset_param = None \<rparr>"

definition rankings_handler ::
  "backend \<Rightarrow> int \<Rightarrow> int \<times> int \<times> string \<times> int \<Rightarrow> rankings_body handled" where
  "rankings_handler be now v =
     (case v of (startDate, endDate, mediaType, limit) \<Rightarrow>
        (let query = rankings_query startDate endDate mediaType limit
         in case execute_ranked be now query of
              None \<Rightarrow> (Status500, [query])
            | Some rows \<Rightarrow>
                (Status200 \<lparr> rankings = rows,
                             period = (startDate, endDate),
                             rankings_mediaType = mediaType \<rparr>,
                 [query])))"

definition api_rankings :: "backend \<Rightarrow> int \<Rightarrow> req_query \<Rightarrow> rankings_body handled" where
  "api_rankings be now = validate_then rankingsSchema (rankings_handler be now)"

subsection \<open>\<open>GET /api/search\<close>\<close>

record search_body =
  results :: "media_row list"
  search_query :: string
  search_total :: nat

definition search_sql ::
  "string \<Rightarrow> int option \<Rightarrow> int option \<Rightarrow> string \<Rightarrow> rat \<Rightarrow> string option \<Rightarrow> bool option \<Rightarrow> int
     \<Rightarrow> sql_select" where
  "search_sql searchQuery startDate endDate mediaType minConfidence platform verified limit =
     (let searchPattern = ''%'' @ searchQuery @ ''%''
      in \<lparr> sel = Columns,
           where_conds =
             [KeywordLike searchPattern searchPattern searchPattern, ConfidenceGe minConfidence]
             @ (case (startDate, endDate) of
                  (Some s, Some e) \<Rightarrow> [DetectedBetween s e]
                | _ \<Rightarrow> [])
             @ (if mediaType \<noteq> ''all'' then [MediaTypeEq mediaType] else [])
             @ (case platform of None \<Rightarrow> [] | Some p \<Rightarrow> if p \<noteq> [] then [PlatformEq p] else [])
             @ (case verified of None \<Rightarrow> [] | Some v \<Rightarrow> [VerifiedEq v]),
           ordered = Some ConfDescDateDesc,
           limit_param = Some limit,
           offset_param = None \<rparr>)"

definition search_handler :: "backend \<Rightarrow> int \<Rightarrow> search_params \<Rightarrow> search_body handled" where
  "search_handler be now v =
     (case v of (searchQuery, startDate, endDate, mediaType, minConfidence, platform, verified, limit) \<Rightarrow>
        (let query = search_sql searchQuery startDate endDate mediaType minConfidence platform
                       verified limit
         in case execute_rows be now query of
              None \<Rightarrow> (Status500, [query])
            | Some rows \<Rightarrow>
                (Status200 \<lparr> results = rows,
                             search_query = searchQuery,
                             search_total = length rows \<rparr>,
                 [query])))"

definition api_search :: "backend \<Rightarrow> int \<Rightarrow> req_query \<Rightarrow> search_body handled" where
  "api_search be now = validate_then searchSchema (search_handler be now)"

section \<open>Spike evaluation of \<open>/api/alerts/check\<close>\<close>

record spike_info =
  todayCount :: nat
  avgCount :: jsnum
  percentIncrease :: jsnum

text \<open>
  \<open>dailyStats.slice(1).reduce((sum, stat) => sum + stat.count, 0) / (dailyStats.length - 1)\<close>,
  evaluated only under the guard \<open>dailyStats.length > 1\<close>.
\<close>

definition history_avg :: "daily_stat list \<Rightarrow> rat" where
  "history_avg dailyStats =
     of_nat (foldl (\<lambda>sum stat. sum + stat_count stat) 0 (drop 1 dailyStats))
       / of_nat (length dailyStats - 1)"

definition spike_check :: "daily_stat list \<Rightarrow> bool \<times> spike_info option" where
  "spike_check dailyStats =
     (if length dailyStats > 1 then
        (let today = stat_count (dailyStats ! 0);
             avg = history_avg dailyStats
         in if of_nat today > avg * (3 / 2) then
              (True, Some \<lparr> todayCount = today,
                            avgCount = Math_round (Finite avg),
                            percentIncrease =
                              Math_round (js_times (js_div (of_nat today - avg) avg) 100) \<rparr>)
            else (False, None))
      else (False, None))"



subsection \<open>\<open>GET /api/alerts/check\<close>\<close>

text \<open>\<open>platforms.split(',')\<close>\<close>

fun split_on :: "char \<Rightarrow> string \<Rightarrow> string list" where
  "split_on sep [] = [[]]"
| "split_on sep (c # cs) =
     (if c = sep then [] # split_on sep cs
      else (case split_on sep cs of
              [] \<Rightarrow> [[c]]
            | piece # pieces \<Rightarrow> (c # piece) # pieces))"

record alerts_body =
  alerts :: "media_row list"
  totalAlerts :: nat
  spikeDetected :: bool
  spikeInfo :: "spike_info option"
  checkTime :: int

definition alerts_query :: "rat \<Rightarrow> int option \<Rightarrow> string option \<Rightarrow> bool option \<Rightarrow> sql_select" where
  "alerts_query minConfidence lastCheckTime platforms verifiedOnly =
     \<lparr> sel = Columns,
       where_conds =
         [ConfidenceGe minConfidence]
         @ (case lastCheckTime of
              Some t \<Rightarrow> [DetectedAfter t]
            | None \<Rightarrow> [DetectedAfterNowMinus24h])
         @ (case platforms of
              None \<Rightarrow> []
            | Some p \<Rightarrow> if p \<noteq> [] then [PlatformIn (split_on CHR '','' p)] else [])
         @ (if verifiedOnly = Some True then [VerifiedIs1] else []),
       ordered = Some DateDescConfDesc,
       limit_param = Some 50,
       offset_param = None \<rparr>"

definition dailyStats_query :: sql_select where
  "dailyStats_query =
     \<lparr> sel = DailyCounts,
       where_conds = [DetectedSinceNowMinus7d],
       ordered = Some DayDesc,
       limit_param = None,
       offset_param = None \<rparr>"

text \<open>\<open>clock\<close> is the server's \<open>new Date()\<close> when the answer is written.\<close>

definition alerts_handler :: "backend \<Rightarrow> int \<Rightarrow> int \<Rightarrow> alert_params \<Rightarrow> alerts_body handled" where
  "alerts_handler be now clock v =
     (case v of (minConfidence, lastCheckTime, platforms, verifiedOnly) \<Rightarrow>
        (let query = alerts_query minConfidence lastCheckTime platforms verifiedOnly
         in case execute_rows be now query of
              None \<Rightarrow> (Status500, [query])
            | Some found \<Rightarrow>
                (case execute_daily be now dailyStats_query of
                   None \<Rightarrow> (Status500, [query, dailyStats_query])
                 | Some dailyStats \<Rightarrow>
                     (case spike_check dailyStats of
                        (detected, info) \<Rightarrow>
                          (Status200 \<lparr> alerts = found,
                                       totalAlerts = length found,
                                       spikeDetected = detected,
                                       spikeInfo = info,
                                       checkTime = clock \<rparr>,
                           [query, dailyStats_query])))))"

definition api_alerts_check ::
  "backend \<Rightarrow> int \<Rightarrow> int \<Rightarrow> req_query \<Rightarrow> alerts_body handled" where
  "api_alerts_check be now clock = validate_then alertsSchema (alerts_handler be now clock)"

section \<open>CSV export\<close>

definition dquote :: char where
  "dquote = CHR 0x22"

definition newline :: char where
  "newline = CHR 0x0A"

text \<open>\<open>Array.prototype.join\<close>\<close>

fun join :: "string \<Rightarrow> string list \<Rightarrow> string" where
  "join sep [] = []"
| "join sep [x] = x"
| "join sep (x # y # ys) = x @ sep @ join sep (y # ys)"

text \<open>\<open>stringValue.replace(/"/g, '""')\<close>\<close>

definition double_quotes :: "string \<Rightarrow> string" where
  "double_quotes s = concat (map (\<lambda>c. if c = dquote then [dquote, dquote] else [c]) s)"

text \<open>
  One cell of \<open>convertToCSV\<close>. The value is \<open>None\<close> for \<open>null\<close> and \<open>undefined\<close>, and
  otherwise carries \<open>String(value)\<close>.
\<close>

definition csv_cell :: "string option \<Rightarrow> string" where
  "csv_cell v =
     (case v of
        None \<Rightarrow> []
      | Some stringValue \<Rightarrow>
          if CHR '','' \<in> set stringValue \<or> dquote \<in> set stringValue \<or> newline \<in> set stringValue
          then [dquote] @ double_quotes stringValue @ [dquote]
          else stringValue)"

text \<open>A row is an object: a header that is no key of it reads as \<open>undefined\<close>.\<close>

type_synonym csv_row = "string \<Rightarrow> string option"

definition convertToCSV :: "csv_row list option \<Rightarrow> string list \<Rightarrow> string" where
  "convertToCSV data headers =
     (case data of
        None \<Rightarrow> []
      | Some rows \<Rightarrow>
          if length rows = 0 then []
          else (let csvHeaders = join '','' headers;
                    csvRows = map (\<lambda>row. join '','' (map (\<lambda>header. csv_cell (row header)) headers)) rows
                in join [newline] (csvHeaders # csvRows)))"

subsection \<open>Reading a record back\<close>

text \<open>
  The reader the round trip is measured against: a record is split at the commas that
  stand outside quotes; a field that opens with a double quote runs to its closing quote,
  and a doubled quote inside it stands for one quote. The reader is in one of four places:
  at the start of a field, inside a bare field, inside a quoted field, or just behind a
  quote seen inside a quoted field.
\<close>

datatype place = FieldStart | Bare | Quoted | QuoteSeen

fun read_record :: "place \<Rightarrow> string \<Rightarrow> string \<Rightarrow> string list option" where
  "read_record pl cur [] = (if pl = Quoted then None else Some [cur])"
| "read_record FieldStart cur (c # cs) =
     (if c = dquote then read_record Quoted [] cs
      else if c = CHR '','' then map_option ((#) []) (read_record FieldStart [] cs)
      else read_record Bare [c] cs)"
| "read_record Bare cur (c # cs) =
     (if c = CHR '','' then map_option ((#) cur) (read_record FieldStart [] cs)
      else read_record Bare (cur @ [c]) cs)"
| "read_record Quoted cur (c # cs) =
     (if c = dquote then read_record QuoteSeen cur cs
      else read_record Quoted (cur @ [c]) cs)"
| "read_record QuoteSeen cur (c # cs) =
     (if c = dquote then read_record Quoted (cur @ [dquote]) cs
      else if c = CHR '','' then map_option ((#) cur) (read_record FieldStart [] cs)
      else None)"

definition parse_record :: "string \<Rightarrow> string list option" where
  "parse_record s = read_record FieldStart [] s"

text \<open>
  What the reader returns once a field \<open>f\<close> is complete and \<open>rest\<close> is still to be read:
  the record ends with \<open>f\<close>, or \<open>f\<close> is followed by the fields behind the separator.
\<close>

definition after_field :: "string \<Rightarrow> string \<Rightarrow> string list option" where
  "after_field f rest =
     (case rest of [] \<Rightarrow> Some [f]
      | c # t \<Rightarrow> map_option ((#) f) (read_record FieldStart [] t))"

section \<open>The filter of a list request, in the words of the specification\<close>

text \<open>
  Dates are inclusive bounds on the detection date, \<open>all\<close> means no type predicate, the
  confidence floor is \<open>confidenceScore >= minConfidence\<close>, and platform and verification
  are exact matches when given.
\<close>

definition matches_filters ::
  "int \<Rightarrow> int \<Rightarrow> string \<Rightarrow> rat \<Rightarrow> string option \<Rightarrow> bool option \<Rightarrow> media_row \<Rightarrow> bool" where
  "matches_filters startDate endDate mediaType minConfidence platform verified r \<longleftrightarrow>
     (case detected_date r of None \<Rightarrow> False | Some d \<Rightarrow> startDate \<le> d \<and> d \<le> endDate) \<and>
     (case confidence_score r of None \<Rightarrow> False | Some c \<Rightarrow> minConfidence \<le> c) \<and>
     (mediaType = ''all'' \<or> media_type r = mediaType) \<and>
     (case platform of None \<Rightarrow> True | Some p \<Rightarrow> source_platform r = Some p) \<and>
     (case verified of None \<Rightarrow> True | Some v \<Rightarrow> is_verified r = Some v)"

section \<open>Sample data\<close>

definition sample_row :: "int \<Rightarrow> rat option \<Rightarrow> int option \<Rightarrow> media_row" where
  "sample_row i c d =
     \<lparr> row_id = i, media_type = ''photo'', title = Some ''Breaking, fake'', description = None,
       confidence_score = c, source_platform = Some ''weibo'', detected_date = d,
       is_verified = Some False, tags = None \<rparr>"

definition date_param :: "int \<Rightarrow> qvalue" where
  "date_param d = \<lparr> q_text = ''date'', q_date = Some d, q_number = None, q_bool = None \<rparr>"

definition number_param :: "rat \<Rightarrow> qvalue" where
  "number_param n = \<lparr> q_text = ''number'', q_date = None, q_number = Some n, q_bool = None \<rparr>"

definition text_param :: "string \<Rightarrow> qvalue" where
  "text_param s = \<lparr> q_text = s, q_date = None, q_number = None, q_bool = None \<rparr>"

section \<open>Ordering and grouping\<close>

lemma set_insert_by: "set (insert_by precedes x ys) = insert x (set ys)"
  by (induction ys) auto

lemma set_order_by: "set (order_by precedes xs) = set xs"
  by (induction xs) (simp_all add: order_by_def set_insert_by)

lemma length_insert_by: "length (insert_by precedes x ys) = Suc (length ys)"
  by (induction ys) auto

lemma length_order_by: "length (order_by precedes xs) = length xs"
  by (induction xs) (simp_all add: order_by_def length_insert_by)








section \<open>Selection\<close>

lemma sql_and_True: "sql_and a b = Some True \<longleftrightarrow> a = Some True \<and> b = Some True"
  by (cases "(a, b)" rule: sql_and.cases) auto

lemma eval_where_True:
  "eval_where now cs r = Some True \<longleftrightarrow> (\<forall>c \<in> set cs. eval_cond now c r = Some True)"
  by (induction cs) (auto simp: sql_and_True)

lemma set_where_rows:
  "set (where_rows now cs tbl) = {r \<in> set tbl. \<forall>c \<in> set cs. eval_cond now c r = Some True}"
  by (auto simp: where_rows_def eval_where_True)

lemma set_page_of: "set (page_of l ofs rows) \<subseteq> set rows"
  by (auto simp: page_of_def Let_def split: option.splits dest: in_set_takeD in_set_dropD)

lemma api_alerts_check_valid:
  "alertsSchema q = Inr v \<Longrightarrow> api_alerts_check be now clock q = alerts_handler be now clock v"
  by (simp add: api_alerts_check_def validate_then_def)

lemma alerts_handler_up:
  "alerts_handler (Some tbl) now clock (minConfidence, lastCheckTime, platforms, verifiedOnly) =
     (let query = alerts_query minConfidence lastCheckTime platforms verifiedOnly;
          found = page_of (Some 50) None
                    (order_by date_desc_conf_desc (where_rows now (where_conds query) tbl));
          dailyStats = order_by (\<lambda>a b. stat_date a \<ge> stat_date b)
                         (group_by_day (where_rows now [DetectedSinceNowMinus7d] tbl))
      in (Status200 \<lparr> alerts = found, totalAlerts = length found,
                       spikeDetected = fst (spike_check dailyStats),
                       spikeInfo = snd (spike_check dailyStats),
                       checkTime = clock \<rparr>,
          [query, dailyStats_query]))"
  by (simp add: alerts_handler_def Let_def execute_rows_def execute_daily_def
      dailyStats_query_def alerts_query_def split: prod.splits)

section \<open>Properties of the spike evaluation\<close>














section \<open>Properties of the alert check\<close>



text \<open>
  Claim C3. Every detection a valid alert check returns has a confidence score of at
  least \<open>minConfidence\<close> and a detection date strictly after \<open>lastCheckTime\<close> when that
  is given, and strictly after the database's now minus 24 hours when it is absent.
\<close>

theorem alerts_newer_than_watermark:
  assumes "alertsSchema q = Inr (minConfidence, lastCheckTime, platforms, verifiedOnly)"
    and "fst (api_alerts_check be now clock q) = Status200 body"
  shows "\<forall>r \<in> set (alerts body).
           (\<exists>c. confidence_score r = Some c \<and> minConfidence \<le> c) \<and>
           (\<exists>d. detected_date r = Some d \<and>
                (case lastCheckTime of Some T \<Rightarrow> T < d | None \<Rightarrow> now - 24 * ms_per_hour < d))"
proof
  fix r assume r: "r \<in> set (alerts body)"
  let ?q = "alerts_query minConfidence lastCheckTime platforms verifiedOnly"
  from assms obtain tbl where be: "be = Some tbl"
    by (cases be) (auto simp: api_alerts_check_valid alerts_handler_def
        execute_rows_def Let_def)
  with assms have body: "alerts body = page_of (Some 50) None
       (order_by date_desc_conf_desc (where_rows now (where_conds ?q) tbl))"
    by (auto simp: api_alerts_check_valid alerts_handler_up Let_def)
  with r set_page_of have "r \<in> set (where_rows now (where_conds ?q) tbl)"
    by (fastforce simp: set_order_by)
  then have all: "\<forall>c \<in> set (where_conds ?q). eval_cond now c r = Some True"
    by (simp add: set_where_rows)
  have "ConfidenceGe minConfidence \<in> set (where_conds ?q)"
    by (simp add: alerts_query_def)
  with all have "eval_cond now (ConfidenceGe minConfidence) r = Some True" by blast
  then have conf: "\<exists>c. confidence_score r = Some c \<and> minConfidence \<le> c" by auto
  have "(case lastCheckTime of Some T \<Rightarrow> DetectedAfter T | None \<Rightarrow> DetectedAfterNowMinus24h)
          \<in> set (where_conds ?q)"
    by (simp add: alerts_query_def split: option.splits)
  with all have "eval_cond now
      (case lastCheckTime of Some T \<Rightarrow> DetectedAfter T | None \<Rightarrow> DetectedAfterNowMinus24h) r = Some True"
    by blast
  then have "\<exists>d. detected_date r = Some d \<and>
                (case lastCheckTime of Some T \<Rightarrow> T < d | None \<Rightarrow> now - 24 * ms_per_hour < d)"
    by (cases lastCheckTime) auto
  with conf show "(\<exists>c. confidence_score r = Some c \<and> minConfidence \<le> c) \<and>
           (\<exists>d. detected_date r = Some d \<and>
                (case lastCheckTime of Some T \<Rightarrow> T < d | None \<Rightarrow> now - 24 * ms_per_hour < d))"
    by simp
qed

theorem alerts_newer_than_watermark_witness:
  "alertsSchema [(''lastCheckTime'', date_param 500)] = Inr (9 / 10, Some 500, None, None) \<and>
   fst (api_alerts_check
          (Some [sample_row 1 (Some (95 / 100)) (Some 1000), sample_row 2 (Some (95 / 100)) (Some 400)])
          1000 1001 [(''lastCheckTime'', date_param 500)]) =
     Status200 \<lparr> alerts = [sample_row 1 (Some (95 / 100)) (Some 1000)], totalAlerts = 1,
                 spikeDetected = False, spikeInfo = None, checkTime = 1001 \<rparr> \<and>
   (\<exists>d. detected_date (sample_row 1 (Some (95 / 100)) (Some 1000)) = Some d \<and> 500 < d)"
proof -
  have h1: "alertsSchema [(''lastCheckTime'', date_param 500)] = Inr (9 / 10, Some 500, None, None)"
    by code_simp
  have h2: "fst (api_alerts_check
          (Some [sample_row 1 (Some (95 / 100)) (Some 1000), sample_row 2 (Some (95 / 100)) (Some 400)])
          1000 1001 [(''lastCheckTime'', date_param 500)]) =
     Status200 \<lparr> alerts = [sample_row 1 (Some (95 / 100)) (Some 1000)], totalAlerts = 1,
                 spikeDetected = False, spikeInfo = None, checkTime = 1001 \<rparr>"
    by code_simp
  from alerts_newer_than_watermark[OF h1 h2] h1 h2 show ?thesis by simp
qed

section \<open>Properties of the list request\<close>

lemma and_then_Inr: "and_then r f = Inr b \<longleftrightarrow> (\<exists>a. r = Inr a \<and> f a = Inr b)"
  by (cases r) (simp_all add: and_then_def)

lemma string_optional_nonempty: "string_optional k q = Inr (Some p) \<Longrightarrow> p \<noteq> []"
  by (auto simp: string_optional_def split: option.splits if_splits)

lemma dateRangeSchema_platform:
  assumes "dateRangeSchema q =
     Inr (startDate, endDate, mediaType, limit, offset, minConfidence, platform, verified)"
  shows "platform \<noteq> Some []"
proof -
  from assms have "string_optional ''platform'' q = Inr platform"
    by (auto simp: dateRangeSchema_def and_then_Inr)
  then show ?thesis using string_optional_nonempty by blast
qed

lemma api_deepfakes_valid:
  "dateRangeSchema q = Inr v \<Longrightarrow> api_deepfakes be now q = deepfakes_body be now v"
  by (simp add: api_deepfakes_def validate_then_def)

lemma deepfakes_conds_equal:
  "where_conds (deepfakes_query startDate endDate mediaType limit offset minConfidence platform verified)
   = where_conds (deepfakes_countQuery startDate endDate mediaType minConfidence platform verified)"
  by (simp add: deepfakes_query_def deepfakes_countQuery_def)

lemma deepfakes_where_matches:
  assumes "platform \<noteq> Some []"
  shows "eval_where now (where_conds (deepfakes_countQuery startDate endDate mediaType
            minConfidence platform verified)) r = Some True
         \<longleftrightarrow> matches_filters startDate endDate mediaType minConfidence platform verified r"
  using assms
  by (auto simp: sql_and_True deepfakes_countQuery_def matches_filters_def
      split: option.splits)

lemma deepfakes_body_up:
  "deepfakes_body (Some tbl) now
      (startDate, endDate, mediaType, limit, offset, minConfidence, platform, verified) =
     (let query = deepfakes_query startDate endDate mediaType limit offset minConfidence
                    platform verified;
          countQuery = deepfakes_countQuery startDate endDate mediaType minConfidence
                    platform verified;
          total' = length (where_rows now (where_conds countQuery) tbl)
      in (Status200 \<lparr> page_data = take (nat limit) (drop (nat offset)
                                      (order_by date_desc_conf_desc
                                         (where_rows now (where_conds query) tbl))),
                       pagination_total = total',
                       pagination_limit = limit,
                       pagination_offset = offset,
                       pagination_hasMore = (offset + limit < int total') \<rparr>,
          [query, countQuery]))"
  by (simp add: deepfakes_body_def Let_def execute_rows_def execute_count_def page_of_def
      deepfakes_query_def)

lemma getDeepfakeMedia_up:
  "getDeepfakeMedia (Some tbl) now
      (Some startDate, Some endDate, Some mediaType, Some limit, Some offset, Some minConfidence,
       platform, verified) =
     Some (take (nat limit) (drop (nat offset) (order_by date_desc_conf_desc
        (where_rows now (where_conds (getDeepfakeMedia_query
           (Some startDate, Some endDate, Some mediaType, Some limit, Some offset,
            Some minConfidence, platform, verified))) tbl))))"
  by (simp add: getDeepfakeMedia_def execute_rows_def getDeepfakeMedia_query_def page_of_def Let_def)

lemma builders_agree_on_row:
  assumes "0 < minConfidence \<or> (\<exists>c. confidence_score r = Some c \<and> minConfidence \<le> c)"
  shows "eval_where now (where_conds (deepfakes_query startDate endDate mediaType limit offset
            minConfidence platform verified)) r = Some True
     \<longleftrightarrow> eval_where now (where_conds (getDeepfakeMedia_query
           (Some startDate, Some endDate, Some mediaType, Some limit, Some offset,
            Some minConfidence, platform, verified))) r = Some True"
  using assms
  by (auto simp: sql_and_True deepfakes_query_def getDeepfakeMedia_query_def Let_def
      split: option.splits)

text \<open>
  Claim C2. For every valid list request answered by the database, the data statement and
  the count statement carry the same conjuncts; the page is cut out of the records that
  match the filters, \<open>pagination.total\<close> is the number of those records, and \<open>hasMore\<close>
  is \<open>offset + limit < total\<close>.
\<close>

theorem total_counts_matching_records:
  assumes "dateRangeSchema q =
     Inr (startDate, endDate, mediaType, limit, offset, minConfidence, platform, verified)"
  shows "\<exists>body query countQuery.
     api_deepfakes (Some tbl) now q = (Status200 body, [query, countQuery]) \<and>
     where_conds query = where_conds countQuery \<and>
     page_data body =
       take (nat limit) (drop (nat offset) (order_by date_desc_conf_desc
         (filter (matches_filters startDate endDate mediaType minConfidence platform verified) tbl))) \<and>
     pagination_total body =
       length (filter (matches_filters startDate endDate mediaType minConfidence platform verified) tbl) \<and>
     pagination_hasMore body = (offset + limit < int (pagination_total body))"
proof -
  have pf: "platform \<noteq> Some []" using assms by (rule dateRangeSchema_platform)
  have w: "where_rows now (where_conds (deepfakes_countQuery startDate endDate mediaType
            minConfidence platform verified)) tbl
        = filter (matches_filters startDate endDate mediaType minConfidence platform verified) tbl"
    unfolding where_rows_def using deepfakes_where_matches[OF pf] by simp
  show ?thesis
    unfolding api_deepfakes_valid[OF assms] deepfakes_body_up Let_def
    using w deepfakes_conds_equal[of startDate endDate mediaType limit offset minConfidence platform verified]
    by simp
qed

theorem total_counts_matching_records_witness:
  "dateRangeSchema [(''startDate'', date_param 0), (''endDate'', date_param 10),
                    (''limit'', number_param 1)]
     = Inr (0, 10, ''all'', 1, 0, 0, None, None) \<and>
   (\<exists>body query countQuery.
     api_deepfakes (Some [sample_row 1 (Some (1 / 2)) (Some 5), sample_row 2 (Some (3 / 4)) (Some 6),
                          sample_row 3 (Some (3 / 4)) (Some 11)]) 0
        [(''startDate'', date_param 0), (''endDate'', date_param 10), (''limit'', number_param 1)]
       = (Status200 body, [query, countQuery]) \<and>
     where_conds query = where_conds countQuery \<and>
     page_data body = [sample_row 2 (Some (3 / 4)) (Some 6)] \<and>
     pagination_total body = 2 \<and>
     pagination_hasMore body = True)"
proof -
  have h: "dateRangeSchema [(''startDate'', date_param 0), (''endDate'', date_param 10),
                    (''limit'', number_param 1)]
     = Inr (0, 10, ''all'', 1, 0, 0, None, None)"
    by code_simp
  have d: "take (nat 1) (drop (nat 0) (order_by date_desc_conf_desc
         (filter (matches_filters 0 10 ''all'' 0 None None)
            [sample_row 1 (Some (1 / 2)) (Some 5), sample_row 2 (Some (3 / 4)) (Some 6),
             sample_row 3 (Some (3 / 4)) (Some 11)])))
        = [sample_row 2 (Some (3 / 4)) (Some 6)]"
    by code_simp
  have t: "length (filter (matches_filters 0 10 ''all'' 0 None None)
            [sample_row 1 (Some (1 / 2)) (Some 5), sample_row 2 (Some (3 / 4)) (Some 6),
             sample_row 3 (Some (3 / 4)) (Some 11)]) = 2"
    by code_simp
  from total_counts_matching_records[OF h, of "[sample_row 1 (Some (1 / 2)) (Some 5), sample_row 2 (Some (3 / 4)) (Some 6),
             sample_row 3 (Some (3 / 4)) (Some 11)]" 0] h
  show ?thesis unfolding d t by auto
qed

text \<open>
  Claim C10, as stated, fails: at \<open>minConfidence = 0\<close> the endpoint keeps the conjunct
  \<open>confidence_score >= 0\<close> and leaves out a record whose score is null, while
  \<open>getDeepfakeMedia\<close> drops the conjunct and returns the record.
\<close>

theorem builders_differ_on_null_confidence:
  "fst (api_deepfakes (Some [sample_row 1 None (Some 5)]) 0
          [(''startDate'', date_param 0), (''endDate'', date_param 10)])
     = Status200 \<lparr> page_data = [], pagination_total = 0, pagination_limit = 100,
                   pagination_offset = 0, pagination_hasMore = False \<rparr> \<and>
   getDeepfakeMedia (Some [sample_row 1 None (Some 5)]) 0
       (Some 0, Some 10, Some ''all'', Some 100, Some 0, Some 0, None, None)
     = Some [sample_row 1 None (Some 5)] \<and>
   where_conds (deepfakes_query 0 10 ''all'' 100 0 0 None None)
     = [DetectedBetween 0 10, ConfidenceGe 0] \<and>
   where_conds (getDeepfakeMedia_query (Some 0, Some 10, Some ''all'', Some 100, Some 0, Some 0, None, None))
     = [TrueCond, DetectedBetween 0 10]"
  by code_simp

text \<open>
  Claim C10, amended. For every filter combination the endpoint accepts, the endpoint and
  \<open>getDeepfakeMedia\<close> return the same rows whenever \<open>minConfidence\<close> is above 0, and
  also whenever every record of the table has a confidence score that is present and at
  least \<open>minConfidence\<close>.
\<close>

theorem builders_agree_above_zero:
  assumes "dateRangeSchema q =
     Inr (startDate, endDate, mediaType, limit, offset, minConfidence, platform, verified)"
    and "0 < minConfidence \<or> (\<forall>r \<in> set tbl. \<exists>c. confidence_score r = Some c \<and> minConfidence \<le> c)"
  shows "\<exists>body. fst (api_deepfakes (Some tbl) now q) = Status200 body \<and>
     getDeepfakeMedia (Some tbl) now
       (Some startDate, Some endDate, Some mediaType, Some limit, Some offset, Some minConfidence,
        platform, verified) = Some (page_data body)"
proof -
  have "where_rows now (where_conds (deepfakes_query startDate endDate mediaType limit offset
            minConfidence platform verified)) tbl
      = where_rows now (where_conds (getDeepfakeMedia_query
           (Some startDate, Some endDate, Some mediaType, Some limit, Some offset,
            Some minConfidence, platform, verified))) tbl"
    unfolding where_rows_def
  proof (rule filter_cong[OF refl])
    fix r assume "r \<in> set tbl"
    with assms(2) have "0 < minConfidence \<or> (\<exists>c. confidence_score r = Some c \<and> minConfidence \<le> c)"
      by blast
    then show "(eval_where now (where_conds (deepfakes_query startDate endDate mediaType limit offset
            minConfidence platform verified)) r = Some True)
       = (eval_where now (where_conds (getDeepfakeMedia_query
           (Some startDate, Some endDate, Some mediaType, Some limit, Some offset,
            Some minConfidence, platform, verified))) r = Some True)"
      by (rule builders_agree_on_row)
  qed
  then show ?thesis
    unfolding api_deepfakes_valid[OF assms(1)] deepfakes_body_up getDeepfakeMedia_up Let_def
    by simp
qed

theorem builders_agree_above_zero_witness:
  "dateRangeSchema [(''startDate'', date_param 0), (''endDate'', date_param 10),
                    (''minConfidence'', number_param (1 / 2))]
     = Inr (0, 10, ''all'', 100, 0, 1 / 2, None, None) \<and>
   (0 < (1 / 2 :: rat) \<or>
     (\<forall>r \<in> set [sample_row 1 None (Some 5), sample_row 2 (Some (3 / 4)) (Some 6)].
        \<exists>c. confidence_score r = Some c \<and> 1 / 2 \<le> c)) \<and>
   getDeepfakeMedia (Some [sample_row 1 None (Some 5), sample_row 2 (Some (3 / 4)) (Some 6)]) 0
       (Some 0, Some 10, Some ''all'', Some 100, Some 0, Some (1 / 2), None, None)
     = Some [sample_row 2 (Some (3 / 4)) (Some 6)] \<and>
   (\<exists>body. fst (api_deepfakes (Some [sample_row 1 None (Some 5), sample_row 2 (Some (3 / 4)) (Some 6)]) 0
                 [(''startDate'', date_param 0), (''endDate'', date_param 10),
                  (''minConfidence'', number_param (1 / 2))]) = Status200 body \<and>
           page_data body = [sample_row 2 (Some (3 / 4)) (Some 6)])"
proof -
  have h1: "dateRangeSchema [(''startDate'', date_param 0), (''endDate'', date_param 10),
                    (''minConfidence'', number_param (1 / 2))]
     = Inr (0, 10, ''all'', 100, 0, 1 / 2, None, None)"
    by code_simp
  have h2: "0 < (1 / 2 :: rat) \<or>
     (\<forall>r \<in> set [sample_row 1 None (Some 5), sample_row 2 (Some (3 / 4)) (Some 6)].
        \<exists>c. confidence_score r = Some c \<and> 1 / 2 \<le> c)"
    by simp
  have g: "getDeepfakeMedia (Some [sample_row 1 None (Some 5), sample_row 2 (Some (3 / 4)) (Some 6)]) 0
       (Some 0, Some 10, Some ''all'', Some 100, Some 0, Some (1 / 2), None, None)
     = Some [sample_row 2 (Some (3 / 4)) (Some 6)]"
    by code_simp
  from builders_agree_above_zero[OF h1 h2, of 0] h1 h2 g show ?thesis by auto
qed

section \<open>Properties of the search request\<close>

lemma api_search_valid:
  "searchSchema q = Inr v \<Longrightarrow> api_search be now q = search_handler be now v"
  by (simp add: api_search_def validate_then_def)

text \<open>
  Claim C6, as stated, fails: with two records matching the keyword and \<open>limit = 1\<close>
  the response reports \<open>total = 1\<close>, the size of the page, while two records match.
\<close>

theorem search_total_is_page_size:
  "fst (api_search (Some [sample_row 1 (Some (1 / 2)) (Some 5), sample_row 2 (Some (3 / 4)) (Some 6)]) 0
          [(''query'', text_param ''fake''), (''limit'', number_param 1)])
     = Status200 \<lparr> results = [sample_row 2 (Some (3 / 4)) (Some 6)], search_query = ''fake'',
                   search_total = 1 \<rparr> \<and>
   where_rows 0 (where_conds (search_sql ''fake'' None None ''all'' 0 None None 1))
       [sample_row 1 (Some (1 / 2)) (Some 5), sample_row 2 (Some (3 / 4)) (Some 6)]
     = [sample_row 1 (Some (1 / 2)) (Some 5), sample_row 2 (Some (3 / 4)) (Some 6)]"
  by code_simp

text \<open>
  Claim C6, amended. For every valid search request answered by the database, \<open>total\<close>
  is the number of rows in \<open>results\<close>, which is the number of records matching the full
  filter predicate capped at \<open>limit\<close>.
\<close>

theorem search_total_capped:
  assumes "searchSchema q =
     Inr (searchQuery, startDate, endDate, mediaType, minConfidence, platform, verified, limit)"
  shows "\<exists>body query.
     api_search (Some tbl) now q = (Status200 body, [query]) \<and>
     query = search_sql searchQuery startDate endDate mediaType minConfidence platform verified limit \<and>
     search_total body = length (results body) \<and>
     search_total body = min (nat limit) (length (where_rows now (where_conds query) tbl))"
  unfolding api_search_valid[OF assms]
  by (simp add: search_handler_def Let_def execute_rows_def page_of_def search_sql_def
      length_order_by min.commute)

theorem search_total_capped_witness:
  "searchSchema [(''query'', text_param ''fake''), (''limit'', number_param 1)]
     = Inr (''fake'', None, None, ''all'', 0, None, None, 1) \<and>
   (\<exists>body query.
     api_search (Some [sample_row 1 (Some (1 / 2)) (Some 5), sample_row 2 (Some (3 / 4)) (Some 6)]) 0
         [(''query'', text_param ''fake''), (''limit'', number_param 1)]
       = (Status200 body, [query]) \<and>
     search_total body = length (results body) \<and>
     search_total body = 1)"
proof -
  have h: "searchSchema [(''query'', text_param ''fake''), (''limit'', number_param 1)]
     = Inr (''fake'', None, None, ''all'', 0, None, None, 1)"
    by code_simp
  have w: "length (where_rows 0 (where_conds (search_sql ''fake'' None None ''all'' 0 None None 1))
       [sample_row 1 (Some (1 / 2)) (Some 5), sample_row 2 (Some (3 / 4)) (Some 6)]) = 2"
    by code_simp
  from search_total_capped[OF h, of "[sample_row 1 (Some (1 / 2)) (Some 5), sample_row 2 (Some (3 / 4)) (Some 6)]" 0] h w
  show ?thesis by auto
qed

section \<open>Properties of the rankings request\<close>








section \<open>Properties of validation\<close>

lemma end_before_start:
  assumes "map_of q ''startDate'' = Some sv" and "q_date sv = Some s"
    and "map_of q ''endDate'' = Some ev" and "q_date ev = Some e"
    and "e < s"
  shows "date_iso_required ''startDate'' q = Inr s"
    and "date_iso_min_required ''endDate'' s q = Inl (DateMin ''endDate'')"
  using assms by (simp_all add: date_iso_required_def date_iso_min_required_def)

text \<open>
  Claim C8. When both dates are given and \<open>endDate\<close> lies before \<open>startDate\<close>, every
  operation that requires both dates answers 400 with a validation error naming
  \<open>endDate\<close>, whatever the other parameters and the state of the database are, and hands
  no statement to the pool. The operations are the list and rankings requests, and, with
  any handler body behind the validation, the statistics and platform requests and the
  three exports.
\<close>

theorem end_before_start_rejected:
  assumes "map_of q ''startDate'' = Some sv" and "q_date sv = Some s"
    and "map_of q ''endDate'' = Some ev" and "q_date ev = Some e"
    and "e < s"
  shows "api_deepfakes be now q = (Status400 (DateMin ''endDate''), []) \<and>
         api_rankings be now q = (Status400 (DateMin ''endDate''), []) \<and>
         validate_then periodSchema stats_or_platforms q = (Status400 (DateMin ''endDate''), []) \<and>
         validate_then exportDeepfakesSchema export_deepfakes q = (Status400 (DateMin ''endDate''), []) \<and>
         validate_then exportPeriodSchema export_stats_or_platforms q
           = (Status400 (DateMin ''endDate''), [])"
  using end_before_start[OF assms]
  by (simp add: api_deepfakes_def api_rankings_def validate_then_def and_then_def
      dateRangeSchema_def rankingsSchema_def periodSchema_def exportDeepfakesSchema_def
      exportPeriodSchema_def)

theorem end_before_start_rejected_witness:
  "map_of [(''startDate'', date_param 10), (''endDate'', date_param 5),
           (''limit'', text_param ''many'')] ''startDate'' = Some (date_param 10) \<and>
   q_date (date_param 10) = Some 10 \<and>
   map_of [(''startDate'', date_param 10), (''endDate'', date_param 5),
           (''limit'', text_param ''many'')] ''endDate'' = Some (date_param 5) \<and>
   q_date (date_param 5) = Some 5 \<and> (5::int) < 10 \<and>
   api_deepfakes (Some [sample_row 1 (Some (1 / 2)) (Some 7)]) 0
       [(''startDate'', date_param 10), (''endDate'', date_param 5), (''limit'', text_param ''many'')]
     = (Status400 (DateMin ''endDate''), [])"
proof -
  have h1: "map_of [(''startDate'', date_param 10), (''endDate'', date_param 5),
           (''limit'', text_param ''many'')] ''startDate'' = Some (date_param 10)"
    by simp
  have h2: "q_date (date_param 10) = Some 10" by (simp add: date_param_def)
  have h3: "map_of [(''startDate'', date_param 10), (''endDate'', date_param 5),
           (''limit'', text_param ''many'')] ''endDate'' = Some (date_param 5)"
    by simp
  have h4: "q_date (date_param 5) = Some 5" by (simp add: date_param_def)
  have h5: "(5::int) < 10" by simp
  from end_before_start_rejected[OF h1 h2 h3 h4 h5, of "Some [sample_row 1 (Some (1 / 2)) (Some 7)]" 0
      "\<lambda>v. (Status500 :: unit response, [])" "\<lambda>v. (Status500 :: unit response, [])"
      "\<lambda>v. (Status500 :: unit response, [])"] h1 h2 h3 h4
  show ?thesis by simp
qed

section \<open>Properties of the CSV export\<close>

lemma read_bare:
  "CHR '','' \<notin> set s \<Longrightarrow> read_record Bare cur (s @ rest) = read_record Bare (cur @ s) rest"
  by (induction s arbitrary: cur) auto

lemma read_quoted:
  "read_record Quoted cur (double_quotes s @ dquote # rest) = read_record QuoteSeen (cur @ s) rest"
  by (induction s arbitrary: cur) (simp_all add: double_quotes_def)

lemma read_cell:
  assumes "rest = [] \<or> hd rest = CHR '',''"
  shows "read_record FieldStart [] (csv_cell v @ rest) =
           after_field (case v of None \<Rightarrow> [] | Some s \<Rightarrow> s) rest"
proof (cases v)
  case None
  with assms show ?thesis
    by (cases rest) (auto simp: csv_cell_def after_field_def dquote_def)
next
  case (Some s)
  show ?thesis
  proof (cases "CHR '','' \<in> set s \<or> dquote \<in> set s \<or> newline \<in> set s")
    case True
    then have "csv_cell v = dquote # double_quotes s @ [dquote]"
      using Some by (simp add: csv_cell_def)
    then have "read_record FieldStart [] (csv_cell v @ rest) = read_record QuoteSeen s rest"
      using read_quoted[of "[]" s rest] by simp
    also have "\<dots> = after_field s rest"
      using assms by (cases rest) (auto simp: after_field_def dquote_def)
    finally show ?thesis using Some by simp
  next
    case False
    then have cell: "csv_cell v = s" using Some by (simp add: csv_cell_def)
    show ?thesis
    proof (cases s)
      case Nil
      with cell assms Some show ?thesis
        by (cases rest) (auto simp: after_field_def dquote_def)
    next
      case (Cons c cs)
      with False have c: "c \<noteq> dquote" "c \<noteq> CHR '',''" and cs: "CHR '','' \<notin> set cs"
        by auto
      from c have "read_record FieldStart [] (csv_cell v @ rest) = read_record Bare [c] (cs @ rest)"
        using cell Cons by simp
      also have "\<dots> = read_record Bare s rest"
        using read_bare[OF cs, of "[c]" rest] Cons by simp
      also have "\<dots> = after_field s rest"
        using assms by (cases rest) (auto simp: after_field_def)
      finally show ?thesis using Some by simp
    qed
  qed
qed

lemma parse_joined_cells:
  "vs \<noteq> [] \<Longrightarrow>
     read_record FieldStart [] (join '','' (map csv_cell vs)) =
       Some (map (\<lambda>v. case v of None \<Rightarrow> [] | Some s \<Rightarrow> s) vs)"
proof (induction vs)
  case Nil
  then show ?case by simp
next
  case (Cons x xs)
  show ?case
  proof (cases xs)
    case Nil
    then show ?thesis using read_cell[of "[]" x] by (simp add: after_field_def)
  next
    case (Cons y ys)
    with Cons.IH have "read_record FieldStart [] (join '','' (map csv_cell xs)) =
       Some (map (\<lambda>v. case v of None \<Rightarrow> [] | Some s \<Rightarrow> s) xs)"
      by simp
    then show ?thesis
      using read_cell[of "CHR '','' # join '','' (map csv_cell xs)" x] Cons
      by (simp add: after_field_def)
  qed
qed

text \<open>
  Claim C9. The export writes one line for each row, the cells of the row joined by
  commas. A value that contains a comma, a double quote or a newline is written between
  double quotes with every double quote of the value doubled, and reading the cell back
  gives the value; the line written for a row reads back as the values of the row, with
  the empty string for \<open>null\<close>. The title \<open>Breaking, fake\<close> is written quoted and reads
  back unchanged.
\<close>

theorem csv_field_round_trip:
  assumes "CHR '','' \<in> set s \<or> dquote \<in> set s \<or> newline \<in> set s"
    and "headers \<noteq> []"
  shows "convertToCSV (Some (r # rs)) headers =
           join [newline] (join '','' headers #
             map (\<lambda>row. join '','' (map (\<lambda>header. csv_cell (row header)) headers)) (r # rs)) \<and>
         csv_cell (Some s) = [dquote] @ double_quotes s @ [dquote] \<and>
         parse_record (csv_cell (Some s)) = Some [s] \<and>
         parse_record (join '','' (map (\<lambda>header. csv_cell (row header)) headers)) =
           Some (map (\<lambda>header. case row header of None \<Rightarrow> [] | Some v \<Rightarrow> v) headers) \<and>
         csv_cell (Some ''Breaking, fake'') = [dquote] @ ''Breaking, fake'' @ [dquote] \<and>
         parse_record (csv_cell (Some ''Breaking, fake'')) = Some [''Breaking, fake'']"
proof (intro conjI)
  show "convertToCSV (Some (r # rs)) headers =
           join [newline] (join '','' headers #
             map (\<lambda>row. join '','' (map (\<lambda>header. csv_cell (row header)) headers)) (r # rs))"
    by (simp add: convertToCSV_def Let_def)
  show "csv_cell (Some s) = [dquote] @ double_quotes s @ [dquote]"
    using assms(1) by (simp add: csv_cell_def)
  show one: "parse_record (csv_cell (Some t)) = Some [t]" for t
    using parse_joined_cells[of "[Some t]"] by (simp add: parse_record_def)
  have "map csv_cell (map row headers) = map (\<lambda>header. csv_cell (row header)) headers"
    by simp
  with assms(2) parse_joined_cells[of "map row headers"]
  show "parse_record (join '','' (map (\<lambda>header. csv_cell (row header)) headers)) =
           Some (map (\<lambda>header. case row header of None \<Rightarrow> [] | Some v \<Rightarrow> v) headers)"
    by (simp add: parse_record_def comp_def)
  show "csv_cell (Some ''Breaking, fake'') = [dquote] @ ''Breaking, fake'' @ [dquote]"
    by (simp add: csv_cell_def double_quotes_def dquote_def)
  show "parse_record (csv_cell (Some ''Breaking, fake'')) = Some [''Breaking, fake'']"
    by (rule one)
qed

theorem csv_field_round_trip_witness:
  "(CHR '','' \<in> set (''say '' @ [dquote] @ ''hi'' @ [dquote] @ '', now'')
      \<or> dquote \<in> set (''say '' @ [dquote] @ ''hi'' @ [dquote] @ '', now'')
      \<or> newline \<in> set (''say '' @ [dquote] @ ''hi'' @ [dquote] @ '', now'')) \<and>
   [''id'', ''title''] \<noteq> [] \<and>
   csv_cell (Some (''say '' @ [dquote] @ ''hi'' @ [dquote] @ '', now'')) =
     [dquote] @ ''say '' @ [dquote, dquote] @ ''hi'' @ [dquote, dquote] @ '', now'' @ [dquote] \<and>
   parse_record (join '',''
       (map (\<lambda>header. csv_cell
               ([''id'' \<mapsto> ''7'', ''title'' \<mapsto> ''say '' @ [dquote] @ ''hi'' @ [dquote] @ '', now''] header))
            [''id'', ''title''])) =
     Some [''7'', ''say '' @ [dquote] @ ''hi'' @ [dquote] @ '', now'']"
proof -
  let ?s = "''say '' @ [dquote] @ ''hi'' @ [dquote] @ '', now''"
  let ?row = "[''id'' \<mapsto> ''7'', ''title'' \<mapsto> ?s]"
  have h1: "CHR '','' \<in> set ?s \<or> dquote \<in> set ?s \<or> newline \<in> set ?s"
    by simp
  have h2: "[''id'', ''title''] \<noteq> []" by simp
  have q: "[dquote] @ double_quotes ?s @ [dquote] =
     [dquote] @ ''say '' @ [dquote, dquote] @ ''hi'' @ [dquote, dquote] @ '', now'' @ [dquote]"
    by (simp add: double_quotes_def dquote_def)
  have m: "map (\<lambda>header. case ?row header of None \<Rightarrow> [] | Some v \<Rightarrow> v) [''id'', ''title'']
             = [''7'', ?s]"
    by simp
  note c = csv_field_round_trip[OF h1 h2, of ?row "[]" ?row]
  from c have "csv_cell (Some ?s) = [dquote] @ double_quotes ?s @ [dquote]" by blast
  from this q have a: "csv_cell (Some ?s) =
     [dquote] @ ''say '' @ [dquote, dquote] @ ''hi'' @ [dquote, dquote] @ '', now'' @ [dquote]"
    by (rule trans)
  from c have "parse_record (join '','' (map (\<lambda>header. csv_cell (?row header)) [''id'', ''title''])) =
           Some (map (\<lambda>header. case ?row header of None \<Rightarrow> [] | Some v \<Rightarrow> v) [''id'', ''title''])"
    by blast
  then have b: "parse_record (join '','' (map (\<lambda>header. csv_cell (?row header)) [''id'', ''title''])) =
           Some [''7'', ?s]"
    unfolding m .
  from h1 h2 a b show ?thesis by blast
qed

end
